theory Spec2Isabelle
  imports Complex_Main
begin

section \<open>JavaScript values\<close>

text \<open>
  A JavaScript number is a finite value, one of the two infinities, or NaN. Finite
  values are read as the reals they denote; the arithmetic below is exact, as the
  double arithmetic of the program is on the counts a semaphore works with (integers
  and halves far below \<open>2^53\<close>).
\<close>

datatype jsnum = Fin real | PosInf | NegInf | NaN

datatype jsval =
    JUndefined
  | JNull
  | JBool bool
  | JNumber jsnum
  | JString string
  | JObject nat

fun js_neg :: "jsnum \<Rightarrow> jsnum" where
  "js_neg (Fin a) = Fin (- a)"
| "js_neg PosInf = NegInf"
| "js_neg NegInf = PosInf"
| "js_neg NaN = NaN"

text \<open>The operator \<open>+\<close> on two numbers.\<close>

fun js_add :: "jsnum \<Rightarrow> jsnum \<Rightarrow> jsnum" where
  "js_add NaN b = NaN"
| "js_add a NaN = NaN"
| "js_add (Fin a) (Fin b) = Fin (a + b)"
| "js_add PosInf NegInf = NaN"
| "js_add NegInf PosInf = NaN"
| "js_add PosInf b = PosInf"
| "js_add a PosInf = PosInf"
| "js_add NegInf b = NegInf"
| "js_add a NegInf = NegInf"

definition js_sub :: "jsnum \<Rightarrow> jsnum \<Rightarrow> jsnum" where
  "js_sub a b = js_add a (js_neg b)"

text \<open>The operator \<open><\<close> on two numbers: false as soon as one side is NaN.\<close>

fun js_lt :: "jsnum \<Rightarrow> jsnum \<Rightarrow> bool" where
  "js_lt NaN b = False"
| "js_lt a NaN = False"
| "js_lt (Fin a) (Fin b) = (a < b)"
| "js_lt NegInf NegInf = False"
| "js_lt NegInf b = True"
| "js_lt a NegInf = False"
| "js_lt PosInf b = False"
| "js_lt a PosInf = True"

definition js_gt :: "jsnum \<Rightarrow> jsnum \<Rightarrow> bool" where
  "js_gt a b = js_lt b a"

text \<open>
  The module variables \<open>_size\<close> and \<open>_avail\<close> hold \<open>null\<close> or a number:
  \<open>None\<close> is \<open>null\<close>. In arithmetic and comparisons \<open>null\<close> counts as \<open>+0\<close>.
\<close>

fun toNumber :: "jsnum option \<Rightarrow> jsnum" where
  "toNumber None = Fin 0"
| "toNumber (Some n) = n"

text \<open>Truthiness of a number (\<open>if (n)\<close>): zero and NaN are falsy.\<close>

fun num_truthy :: "jsnum \<Rightarrow> bool" where
  "num_truthy (Fin a) = (a \<noteq> 0)"
| "num_truthy NaN = False"
| "num_truthy PosInf = True"
| "num_truthy NegInf = True"

text \<open>Truthiness of a value (\<open>!!x\<close>).\<close>

fun truthy :: "jsval \<Rightarrow> bool" where
  "truthy JUndefined = False"
| "truthy JNull = False"
| "truthy (JBool b) = b"
| "truthy (JNumber n) = num_truthy n"
| "truthy (JString s) = (s \<noteq> [])"
| "truthy (JObject a) = True"

text \<open>
  Modelled from the spec: \<open>_.isNumber\<close> of the module \<open>../util\<close>, which
  \<open>maxConcurrency.js\<close> requires and which is not among the sources. The specification
  speaks of a capacity that is "a number" or "non-numeric"; the predicate holds
  exactly of the values of JavaScript type number.
\<close>

fun isNumber :: "jsval \<Rightarrow> bool" where
  "isNumber (JNumber n) = True"
| "isNumber v = False"

datatype js_error = Error string

text \<open>
  The two errors \<open>maxConcurrency\<close> throws; the specification calls the first a
  ValidationError and the second a ConfigurationError.
\<close>

definition ValidationError :: js_error where
  "ValidationError = Error ''maxConcurrency: please specify a positive numeric value''"

definition ConfigurationError :: js_error where
  "ConfigurationError = Error ''maxConcurrency: mod cannot be applied multiple times''"

section \<open>The global semaphore\<close>

text \<open>
  The private state of \<open>maxConcurrency.js\<close>: \<open>_size\<close> (here \<open>sem_size\<close>), \<open>_avail\<close> and
  \<open>_queued\<close>. The type \<open>'f\<close> is the type of the queued callbacks.
\<close>

record 'f semaphore =
  sem_size :: "jsnum option"
  avail :: "jsnum option"
  queued :: "'f list"

text \<open>The state the module starts in, and the one \<open>_reset\<close> restores.\<close>

definition initial :: "'f semaphore" where
  "initial = \<lparr>sem_size = None, avail = None, queued = []\<rparr>"

definition reset :: "'f semaphore \<Rightarrow> 'f semaphore" where
  "reset s = \<lparr>sem_size = None, avail = None, queued = []\<rparr>"

text \<open>
  \<open>enterSemaphore\<close> and \<open>leaveSemaphore\<close> call the callback as their last action.
  The model returns the state at that moment together with the callback that is
  called then (\<open>None\<close> when no callback is called); what the callback does comes
  after, and is the caller's to compose.
\<close>

definition enterSemaphore :: "'f \<Rightarrow> 'f semaphore \<Rightarrow> 'f semaphore \<times> 'f option" where
  "enterSemaphore fn s =
     (if js_gt (toNumber (avail s)) (Fin 0)
      then (s\<lparr>avail := Some (js_sub (toNumber (avail s)) (Fin 1))\<rparr>, Some fn)
      else (s\<lparr>queued := queued s @ [fn]\<rparr>, None))"

definition leaveSemaphore :: "'f semaphore \<Rightarrow> 'f semaphore \<times> 'f option" where
  "leaveSemaphore s =
     (case queued s of
        fn # rest \<Rightarrow> (s\<lparr>queued := rest\<rparr>, Some fn)
      | [] \<Rightarrow> (s\<lparr>avail := Some (js_add (toNumber (avail s)) (Fin 1))\<rparr>, None))"

text \<open>
  \<open>semaphoreSize(n)\<close>: the argument is \<open>None\<close> when the function is called with
  none (\<open>n\<close> is then \<open>undefined\<close>, which is falsy). The result is the value
  returned and the new state.
\<close>

definition semaphoreSize :: "jsnum option \<Rightarrow> 'f semaphore \<Rightarrow> jsnum option \<times> 'f semaphore" where
  "semaphoreSize n s =
     (case n of
        None \<Rightarrow> (sem_size s, s)
      | Some v \<Rightarrow>
          if num_truthy v
          then (Some v,
                s\<lparr>avail := Some (js_add (toNumber (avail s)) (js_sub v (toNumber (sem_size s)))),
                  sem_size := Some v\<rparr>)
          else (sem_size s, s))"

text \<open>
  The mod function \<open>maxConcurrency\<close> returns. Its two methods are
  \<open>mod_acquireCoro\<close> and \<open>mod_releaseCoro\<close> below.
\<close>

datatype modfn = LimiterMod

text \<open>
  \<open>maxConcurrency(value)\<close>. In \<open>!_.isNumber(value) || value < 1\<close> the comparison is
  reached for numbers only: the branch \<open>JNumber n\<close> is the case \<open>isNumber val\<close>.
  An error is thrown before the state is touched.
\<close>

definition maxConcurrency :: "jsval \<Rightarrow> 'f semaphore \<Rightarrow> js_error + (modfn \<times> 'f semaphore)" where
  "maxConcurrency val s =
     (case val of
        JNumber n \<Rightarrow>
          if js_lt n (Fin 1) then Inl ValidationError
          else if fst (semaphoreSize None s) \<noteq> None then Inl ConfigurationError
          else Inr (LimiterMod, snd (semaphoreSize (Some n) s))
      | _ \<Rightarrow> Inl ValidationError)"

section \<open>Coroutines, the inner pipeline and the mod\<close>

text \<open>
  Objects live in a store and are named by references. A reference always names an
  object, as in JavaScript; \<open>nextAddr\<close> is the next reference an object literal
  takes. Coroutine objects and context bags have a store each.
\<close>

type_synonym addr = nat

text \<open>The arguments of \<open>acquireCoro\<close>: protocol, bodyFunc, bodyThis, bodyArgs.\<close>

type_synonym acq_args = "jsval \<times> jsval \<times> jsval \<times> jsval"

text \<open>
  A function value in the \<open>enter\<close> or \<open>leave\<close> field of a coroutine:
  \<open>FUndefined\<close> where the field is absent, \<open>PlaceholderEnter co args\<close> for the
  \<open>enter\<close> closure of the placeholder \<open>co\<close> (it captures \<open>co\<close> and the
  arguments of the \<open>acquireCoro\<close> call), and \<open>ExternFn\<close> for a function of the
  inner pipeline.
\<close>

datatype fnval = FUndefined | PlaceholderEnter addr acq_args | ExternFn nat

text \<open>
  A coroutine object. \<open>inSemaphore\<close> is the truthiness of the field (an absent
  field is falsy); \<open>ctxt\<close> is the reference in the field \<open>context\<close>.
\<close>

record coro =
  inSemaphore :: bool
  ctxt :: addr
  enter :: fnval
  leave :: fnval

text \<open>
  The function the placeholder's \<open>enter\<close> passes to \<open>enterSemaphore\<close>: it
  captures the placeholder, the arguments of \<open>acquireCoro\<close>, and \<open>error\<close> and
  \<open>value\<close>.
\<close>

datatype cb = Callback addr acq_args jsval jsval

text \<open>A method call \<open>this.f(error, value)\<close>: the function, \<open>this\<close>, and the two arguments.\<close>

datatype call = Call fnval addr jsval jsval

text \<open>
  The store: the coroutine objects, the context bags, the next free reference, and
  \<open>ext\<close>, whatever else the inner pipeline and the execution substrate keep.
\<close>

record 'w store =
  coros :: "addr \<Rightarrow> coro"
  ctxs :: "addr \<Rightarrow> (string \<rightharpoonup> jsval)"
  nextAddr :: addr
  ext :: 'w

text \<open>
  The pipeline the mod is applied to. It is not part of the module: its three methods
  are parameters. They work on the store; the variables of the semaphore are private
  to \<open>maxConcurrency.js\<close> and out of their reach. They return normally, and
  \<open>acquireCoro\<close> returns a coroutine object, as the contract of a pipeline has it.
\<close>

record 'w pipeline =
  currentCoro :: "'w store \<Rightarrow> jsval"
  acquireCoro :: "acq_args \<Rightarrow> 'w store \<Rightarrow> addr \<times> 'w store"
  releaseCoro :: "jsval \<Rightarrow> addr \<Rightarrow> 'w store \<Rightarrow> jsval \<times> 'w store"

type_synonym 'w world = "cb semaphore \<times> 'w store"

definition upd_coro :: "addr \<Rightarrow> (coro \<Rightarrow> coro) \<Rightarrow> 'w store \<Rightarrow> 'w store" where
  "upd_coro a f st = st\<lparr>coros := (coros st)(a := f (coros st a))\<rparr>"

text \<open>
  The method \<open>acquireCoro\<close> of the mod: the object literal \<open>co\<close> takes the next
  reference, and its \<open>context: {}\<close> a fresh empty bag.
\<close>

definition mod_acquireCoro :: "'w pipeline \<Rightarrow> acq_args \<Rightarrow> 'w world \<Rightarrow> addr \<times> 'w world" where
  "mod_acquireCoro P args w =
     (case w of (sm, st) \<Rightarrow>
        if truthy (currentCoro P st)
        then (case acquireCoro P args st of (c, st') \<Rightarrow> (c, (sm, st')))
        else (let co = nextAddr st in
              (co, (sm, st\<lparr>coros := (coros st)(co :=
                                \<lparr>inSemaphore = True, ctxt = co,
                                 enter = PlaceholderEnter co args, leave = FUndefined\<rparr>),
                            ctxs := (ctxs st)(co := Map.empty),
                            nextAddr := Suc co\<rparr>))))"

text \<open>
  The function passed to \<open>enterSemaphore\<close>, run when the semaphore is ready. Its
  last statement, \<open>co.enter(error, value)\<close>, is returned as the call it makes.
\<close>

definition callback :: "'w pipeline \<Rightarrow> cb \<Rightarrow> 'w world \<Rightarrow> 'w world \<times> call" where
  "callback P k w =
     (case k of Callback co args error val \<Rightarrow>
      case w of (sm, st) \<Rightarrow>
      case acquireCoro P args st of (c, st1) \<Rightarrow>
        let st2 = upd_coro co (\<lambda>x. x\<lparr>enter := enter (coros st1 c)\<rparr>) st1;
            st3 = upd_coro co (\<lambda>x. x\<lparr>leave := leave (coros st2 c)\<rparr>) st2;
            st4 = upd_coro c (\<lambda>x. x\<lparr>ctxt := ctxt (coros st3 co)\<rparr>) st3;
            st5 = upd_coro c (\<lambda>x. x\<lparr>inSemaphore := True\<rparr>) st4
        in ((sm, st5), Call (enter (coros st5 co)) co error val))"

text \<open>
  The \<open>enter\<close> method of the placeholder \<open>co\<close>. The result carries the call the
  callback ends with, when the callback has run.
\<close>

definition placeholder_enter ::
  "'w pipeline \<Rightarrow> addr \<Rightarrow> acq_args \<Rightarrow> jsval \<Rightarrow> jsval \<Rightarrow> 'w world \<Rightarrow> 'w world \<times> call option" where
  "placeholder_enter P co args error val w =
     (case w of (sm, st) \<Rightarrow>
       (case enterSemaphore (Callback co args error val) sm of
          (sm', None) \<Rightarrow> ((sm', st), None)
        | (sm', Some k) \<Rightarrow> (case callback P k (sm', st) of (w', c) \<Rightarrow> (w', Some c))))"

text \<open>
  The method \<open>releaseCoro\<close> of the mod. When \<open>leaveSemaphore\<close> hands the slot to a
  queued callback, the callback ends by calling the \<open>enter\<close> of another coroutine,
  which runs a body up to its first suspension before \<open>releaseCoro\<close> goes on. That
  code is not the module's: \<open>invoke\<close>, a parameter, is its effect on the whole state
  (it may use the mod again); it is taken to return normally.
\<close>

definition mod_releaseCoro ::
  "'w pipeline \<Rightarrow> (call \<Rightarrow> 'w world \<Rightarrow> 'w world) \<Rightarrow> jsval \<Rightarrow> addr \<Rightarrow> 'w world \<Rightarrow> jsval \<times> 'w world" where
  "mod_releaseCoro P invoke protocol co w =
     (case w of (sm, st) \<Rightarrow>
      let w1 = (if inSemaphore (coros st co)
                then (let st' = upd_coro co (\<lambda>x. x\<lparr>inSemaphore := False\<rparr>) st in
                      case leaveSemaphore sm of
                        (sm', None) \<Rightarrow> (sm', st')
                      | (sm', Some k) \<Rightarrow> (case callback P k (sm', st') of (w', c) \<Rightarrow> invoke c w'))
                else (sm, st))
      in case releaseCoro P protocol co (snd w1) of (r, st2) \<Rightarrow> (r, (fst w1, st2)))"

section \<open>The async iterator and the body of its tests\<close>

text \<open>The operator \<open><=\<close> on two numbers: false as soon as one side is NaN.\<close>

definition js_le :: "jsnum \<Rightarrow> jsnum \<Rightarrow> bool" where
  "js_le a b = (a \<noteq> NaN \<and> b \<noteq> NaN \<and> \<not> js_lt b a)"

text \<open>What one resume step of a body ends with: a yield, a return or a throw.\<close>

datatype outcome = Yielded jsval | Returned jsval | Threw js_error

text \<open>
  The body \<open>foo\<close> of \<open>test/async.iterable.thunk.ts\<close>, as a resumable computation.
  Its frame is either at the start, holding the arguments \<open>count\<close> and \<open>accum\<close>
  (\<open>None\<close> when \<open>accum\<close> is not passed), or suspended at the \<open>yield_\<close> inside the
  loop, holding the loop variable \<open>i\<close> too.
\<close>

datatype foo_frame =
    AtStart jsnum "jsval list option"
  | AtYield jsnum "jsval list option" real

definition foo_loop :: "jsnum \<Rightarrow> jsval list option \<Rightarrow> real \<Rightarrow> outcome \<times> foo_frame" where
  "foo_loop count accum i =
     (if js_le (Fin i) count
      then (Yielded (JNumber (Fin (111 * i))),
            AtYield count (map_option (\<lambda>a. a @ [JNumber (Fin (111 * i))]) accum) i)
      else (Returned (JString ''done''), AtYield count accum i))"

fun foo_resume :: "foo_frame \<Rightarrow> outcome \<times> foo_frame" where
  "foo_resume (AtStart count accum) =
     (if js_lt count (Fin 1) \<or> js_gt count (Fin 9)
      then (Threw (Error ''out of range''), AtStart count accum)
      else foo_loop count accum 1)"
| "foo_resume (AtYield count accum i) = foo_loop count accum (i + 1)"

text \<open>
  Modelled from the spec: the iterator that \<open>async.iterable.thunk\<close> returns. Its
  implementation is not among the sources (only its tests are); what follows is
  section 4.3 of the specification. An iterator wraps one coroutine, here the frame
  of its body, and a status. Invoking the thunk of \<open>next()\<close> resumes the body and
  delivers, through the completion callback, an error or \<open>null\<close> and a result or
  \<open>undefined\<close>; past the end it delivers an IterationExhaustedError.
\<close>

datatype iter_status = NotStarted | Suspended | Done | Failed

datatype iter_error = BodyError js_error | IterationExhaustedError

text \<open>The object \<open>{done: d, value: v}\<close>.\<close>

datatype iter_result = IterResult bool jsval

text \<open>What the completion callback receives: \<open>None\<close> is \<open>null\<close>, then \<open>undefined\<close>.\<close>

type_synonym delivery = "iter_error option \<times> iter_result option"

record 'b iterator =
  status :: iter_status
  frame :: 'b

definition next_thunk :: "('b \<Rightarrow> outcome \<times> 'b) \<Rightarrow> 'b iterator \<Rightarrow> delivery \<times> 'b iterator" where
  "next_thunk resume it =
     (if status it = Done \<or> status it = Failed
      then ((Some IterationExhaustedError, None), it)
      else (case resume (frame it) of
              (Yielded v, b) \<Rightarrow>
                ((None, Some (IterResult False v)), \<lparr>status = Suspended, frame = b\<rparr>)
            | (Returned r, b) \<Rightarrow>
                ((None, Some (IterResult True r)), \<lparr>status = Done, frame = b\<rparr>)
            | (Threw e, b) \<Rightarrow>
                ((Some (BodyError e), None), \<lparr>status = Failed, frame = b\<rparr>)))"

text \<open>\<open>foo(count, accum)\<close>: the iterator over a fresh invocation of the body.\<close>

definition foo :: "jsnum \<Rightarrow> jsval list option \<Rightarrow> foo_frame iterator" where
  "foo count accum = \<lparr>status = NotStarted, frame = AtStart count accum\<rparr>"

text \<open>
  \<open>nexts n\<close>: the deliveries of \<open>n\<close> calls \<open>next()\<close> whose thunks are invoked
  one after the other, each after the one before has delivered.
\<close>

fun nexts :: "nat \<Rightarrow> ('b \<Rightarrow> outcome \<times> 'b) \<Rightarrow> 'b iterator \<Rightarrow> delivery list" where
  "nexts 0 resume it = []"
| "nexts (Suc n) resume it =
     (case next_thunk resume it of (d, it') \<Rightarrow> d # nexts n resume it')"

section \<open>Sequences of semaphore operations\<close>






section \<open>Reading and writing a context through a coroutine\<close>

text \<open>
  \<open>h.context[k] = v\<close> and \<open>h.context[k]\<close> for a coroutine \<open>h\<close>: the bag is
  reached through the reference in the field \<open>context\<close> of \<open>h\<close>.
\<close>

definition context_set :: "addr \<Rightarrow> string \<Rightarrow> jsval \<Rightarrow> 'w store \<Rightarrow> 'w store" where
  "context_set h k v st =
     st\<lparr>ctxs := (ctxs st)(ctxt (coros st h) := (ctxs st (ctxt (coros st h)))(k \<mapsto> v))\<rparr>"

definition context_get :: "addr \<Rightarrow> string \<Rightarrow> 'w store \<Rightarrow> jsval option" where
  "context_get h k st = ctxs st (ctxt (coros st h)) k"

section \<open>A pipeline and a store to run the mod on\<close>

text \<open>
  The concrete instances below run the mod on the plainest inner pipeline there is.
  The store's \<open>ext\<close> holds the current coroutine. \<open>acquireCoro\<close> makes a new
  coroutine object with a context bag of its own and an \<open>enter\<close> and a \<open>leave\<close>
  function; \<open>releaseCoro\<close> does nothing.
\<close>

definition plain_pipeline :: "jsval pipeline" where
  "plain_pipeline =
     \<lparr>currentCoro = (\<lambda>st. ext st),
      acquireCoro = (\<lambda>args st.
        (nextAddr st,
         st\<lparr>coros := (coros st)(nextAddr st :=
               \<lparr>inSemaphore = False, ctxt = nextAddr st,
                enter = ExternFn (2 * nextAddr st), leave = ExternFn (2 * nextAddr st + 1)\<rparr>),
            ctxs := (ctxs st)(nextAddr st := Map.empty),
            nextAddr := Suc (nextAddr st)\<rparr>)),
      releaseCoro = (\<lambda>protocol co st. (JUndefined, st))\<rparr>"

definition empty_store :: "jsval store" where
  "empty_store =
     \<lparr>coros = (\<lambda>a. \<lparr>inSemaphore = False, ctxt = a, enter = FUndefined, leave = FUndefined\<rparr>),
      ctxs = (\<lambda>a. Map.empty),
      nextAddr = 0,
      ext = JUndefined\<rparr>"

text \<open>A semaphore of capacity \<open>n\<close> with \<open>k\<close> slots free and nothing queued.\<close>

definition sem_of :: "real \<Rightarrow> real \<Rightarrow> cb semaphore" where
  "sem_of n k = \<lparr>sem_size = Some (Fin n), avail = Some (Fin k), queued = []\<rparr>"

text \<open>
  A run: a top-level call acquires the placeholder 0 and attaches an entry to its
  context (\<open>placeholder_store\<close>); its \<open>enter\<close> then takes the one slot and binds
  the real coroutine 1 (\<open>bound_store\<close>).
\<close>

definition example_args :: acq_args where
  "example_args = (JObject 10, JObject 11, JNull, JObject 12)"

definition placeholder_store :: "jsval store" where
  "placeholder_store =
     context_set 0 ''user'' (JString ''ann'')
       (snd (snd (mod_acquireCoro plain_pipeline example_args (sem_of 1 1, empty_store))))"

definition bound_store :: "jsval store" where
  "bound_store =
     snd (fst (placeholder_enter plain_pipeline 0 example_args JNull (JNumber (Fin 42))
                 (sem_of 1 1, placeholder_store)))"

text \<open>\<open>co.inSemaphore = false\<close>, the first statement of the guarded block of \<open>releaseCoro\<close>.\<close>

abbreviation unmark :: "addr \<Rightarrow> 'w store \<Rightarrow> 'w store" where
  "unmark co st \<equiv> upd_coro co (\<lambda>x. x\<lparr>inSemaphore := False\<rparr>) st"

section \<open>The semaphore primitive\<close>





section \<open>The invariant of the semaphore\<close>










section \<open>Construction of the mod\<close>

lemma isNumber_iff: "isNumber val \<longleftrightarrow> (\<exists>n. val = JNumber n)"
  by (cases val) simp_all

lemma errors_differ: "ConfigurationError \<noteq> ValidationError"
  by (simp add: ConfigurationError_def ValidationError_def)

lemma at_least_one: "js_le (Fin 1) n \<Longrightarrow> \<not> js_lt n (Fin 1) \<and> num_truthy n \<and> js_sub n (Fin 0) = n"
  by (cases n) (simp_all add: js_le_def js_sub_def)


lemma validation_iff:
  "maxConcurrency val s = Inl ValidationError \<longleftrightarrow>
     \<not> isNumber val \<or> (\<exists>n. val = JNumber n \<and> js_lt n (Fin 1))"
  by (cases val) (simp_all add: maxConcurrency_def errors_differ)

lemma first_application:
  assumes "js_le (Fin 1) n" and "sem_size s = None"
  shows "maxConcurrency (JNumber n) s =
           Inr (LimiterMod, s\<lparr>avail := Some (js_add (toNumber (avail s)) n), sem_size := Some n\<rparr>)"
  using assms at_least_one [OF assms(1)]
  by (simp add: maxConcurrency_def semaphoreSize_def)


lemma reset_initial: "reset s = initial"
  by (simp add: reset_def initial_def)


text \<open>
  C8, as the specification states it, fails: 1/2 is a number and is positive, and
  \<open>maxConcurrency(0.5)\<close> throws the validation error, because the test in the code
  is \<open>value < 1\<close>.
\<close>

theorem validation_counterexample:
  "isNumber (JNumber (Fin (1/2))) \<and> (0::real) < 1/2
   \<and> maxConcurrency (JNumber (Fin (1/2))) (initial :: nat semaphore) = Inl ValidationError"
  by (simp add: maxConcurrency_def)

text \<open>
  C8, amended. \<open>maxConcurrency(value)\<close> throws the validation error exactly when
  \<open>value\<close> is not a number or is less than 1; for a finite number \<open>r\<close>, exactly
  when \<open>r < 1\<close>. For every number that is at least 1, on a first application (no
  size set yet), the call succeeds, sets size and available slots and returns the
  mod. NaN is left out: what happens to it hinges on \<open>_.isNumber\<close>.
\<close>

theorem maxConcurrency_validation:
  assumes "val \<noteq> JNumber NaN"
  shows "(maxConcurrency val s = Inl ValidationError \<longleftrightarrow>
            \<not> isNumber val \<or> (\<exists>n. val = JNumber n \<and> js_lt n (Fin 1)))
         \<and> (\<forall>r. val = JNumber (Fin r) \<longrightarrow>
               (maxConcurrency val s = Inl ValidationError \<longleftrightarrow> r < 1))
         \<and> (\<forall>n. val = JNumber n \<and> js_le (Fin 1) n \<and> sem_size s = None \<longrightarrow>
               maxConcurrency val s =
                 Inr (LimiterMod,
                      s\<lparr>avail := Some (js_add (toNumber (avail s)) n), sem_size := Some n\<rparr>))"
proof -
  have a: "maxConcurrency val s = Inl ValidationError \<longleftrightarrow>
            \<not> isNumber val \<or> (\<exists>n. val = JNumber n \<and> js_lt n (Fin 1))"
    by (rule validation_iff)
  have b: "\<forall>r. val = JNumber (Fin r) \<longrightarrow>
               (maxConcurrency val s = Inl ValidationError \<longleftrightarrow> r < 1)"
    by (simp add: validation_iff)
  have c: "\<forall>n. val = JNumber n \<and> js_le (Fin 1) n \<and> sem_size s = None \<longrightarrow>
               maxConcurrency val s =
                 Inr (LimiterMod,
                      s\<lparr>avail := Some (js_add (toNumber (avail s)) n), sem_size := Some n\<rparr>)"
    by (simp add: first_application)
  from a b c show ?thesis by blast
qed

theorem maxConcurrency_validation_witness:
  "maxConcurrency (JString ''3'') (initial :: nat semaphore) = Inl ValidationError
   \<and> maxConcurrency (JNumber (Fin 0)) (initial :: nat semaphore) = Inl ValidationError
   \<and> maxConcurrency (JNumber (Fin 3)) (initial :: nat semaphore)
       = Inr (LimiterMod, \<lparr>sem_size = Some (Fin 3), avail = Some (Fin 3), queued = []\<rparr>)"
  using
    maxConcurrency_validation [where val = "JString ''3''" and s = "initial :: nat semaphore"]
    maxConcurrency_validation [where val = "JNumber (Fin 0)" and s = "initial :: nat semaphore"]
    maxConcurrency_validation [where val = "JNumber (Fin 3)" and s = "initial :: nat semaphore"]
  by (simp add: initial_def js_le_def)



section \<open>The iterator of the tests\<close>

text \<open>
  C7. For the iterator over the body of the tests called with 3, which yields 111,
  222 and 333 and then returns \<open>'done'\<close>, the thunks of the first four \<open>next()\<close>
  deliver, in order, \<open>(null, {done: false, value: 111})\<close>,
  \<open>(null, {done: false, value: 222})\<close>, \<open>(null, {done: false, value: 333})\<close> and
  \<open>(null, {done: true, value: 'done'})\<close>; the fifth delivers an
  IterationExhaustedError through the same completion callback.
\<close>

theorem foo_three_then_done:
  "nexts 5 foo_resume (foo (Fin 3) None) =
     [(None, Some (IterResult False (JNumber (Fin 111)))),
      (None, Some (IterResult False (JNumber (Fin 222)))),
      (None, Some (IterResult False (JNumber (Fin 333)))),
      (None, Some (IterResult True (JString ''done''))),
      (Some IterationExhaustedError, None)]"
  by (simp add: eval_nat_numeral foo_def next_thunk_def foo_loop_def js_le_def js_gt_def)

section \<open>Acquiring a coroutine through the mod\<close>

text \<open>
  C2. When a coroutine is active (\<open>pipeline.currentCoro()\<close> is truthy),
  \<open>acquireCoro\<close> of the mod is \<open>acquireCoro\<close> of the inner pipeline on the same
  arguments: it returns that call's result on that call's store, and the semaphore
  is as it was.
\<close>

theorem nested_acquire_delegates:
  assumes "truthy (currentCoro P st)"
  shows "mod_acquireCoro P args (sm, st) =
           (fst (acquireCoro P args st), (sm, snd (acquireCoro P args st)))"
  using assms by (simp add: mod_acquireCoro_def split: prod.splits)

theorem nested_acquire_delegates_witness:
  "mod_acquireCoro plain_pipeline (JNull, JObject 1, JNull, JNull)
      (sem_of 1 0, empty_store\<lparr>ext := JObject 5\<rparr>)
     = (0, (sem_of 1 0,
            snd (acquireCoro plain_pipeline (JNull, JObject 1, JNull, JNull)
                   (empty_store\<lparr>ext := JObject 5\<rparr>))))"
  using nested_acquire_delegates [where P = plain_pipeline
      and st = "empty_store\<lparr>ext := JObject 5\<rparr>" and sm = "sem_of 1 0"
      and args = "(JNull, JObject 1, JNull, JNull)"]
  by (simp add: plain_pipeline_def empty_store_def)

lemma upd_coro_simps:
  "coros (upd_coro a f st) b = (if b = a then f (coros st a) else coros st b)"
  "ctxs (upd_coro a f st) = ctxs st"
  "nextAddr (upd_coro a f st) = nextAddr st"
  "ext (upd_coro a f st) = ext st"
  by (simp_all add: upd_coro_def)

lemma callback_result:
  assumes "acquireCoro P args st = (c, st1)"
  shows "\<exists>st'. callback P (Callback co args error val) (sm, st)
             = ((sm, st'), Call (enter (coros st1 c)) co error val)
           \<and> enter (coros st' co) = enter (coros st1 c)
           \<and> leave (coros st' co) = leave (coros st1 c)
           \<and> inSemaphore (coros st' c)
           \<and> ctxt (coros st' c) = ctxt (coros st1 co)
           \<and> ctxt (coros st' co) = ctxt (coros st1 co)
           \<and> ctxs st' = ctxs st1
           \<and> ext st' = ext st1
           \<and> (\<forall>a. a \<noteq> co \<and> a \<noteq> c \<longrightarrow> coros st' a = coros st1 a)"
  using assms by (simp add: callback_def Let_def upd_coro_simps)

text \<open>
  C3. When no coroutine is active, \<open>acquireCoro\<close> of the mod returns a placeholder:
  a new object, marked, whose \<open>enter\<close> is the placeholder's closure and whose
  context is a new empty bag. The semaphore is as it was; nothing else in the store
  has changed, the part of the inner pipeline and the substrate included; the result
  is the same whatever the inner \<open>acquireCoro\<close> is, so it is not called; and no call
  is made, so no body starts. The semaphore is entered when the placeholder's
  \<open>enter\<close> is invoked: it queues the callback when there is no slot, and takes a
  slot and runs the callback when there is one.
\<close>

theorem toplevel_acquire_placeholder:
  assumes "\<not> truthy (currentCoro P st)"
  shows "\<exists>co st'. mod_acquireCoro P args (sm, st) = (co, (sm, st'))
           \<and> inSemaphore (coros st' co)
           \<and> enter (coros st' co) = PlaceholderEnter co args
           \<and> leave (coros st' co) = FUndefined
           \<and> ctxs st' (ctxt (coros st' co)) = Map.empty
           \<and> ext st' = ext st
           \<and> (\<forall>a. a \<noteq> co \<longrightarrow> coros st' a = coros st a \<and> ctxs st' a = ctxs st a)
           \<and> (\<forall>f. mod_acquireCoro (P\<lparr>acquireCoro := f\<rparr>) args (sm, st) = (co, (sm, st')))
           \<and> (\<forall>error val. \<not> js_gt (toNumber (avail sm)) (Fin 0) \<longrightarrow>
                 placeholder_enter P co args error val (sm, st')
                   = ((sm\<lparr>queued := queued sm @ [Callback co args error val]\<rparr>, st'), None))
           \<and> (\<forall>error val. js_gt (toNumber (avail sm)) (Fin 0) \<longrightarrow>
                 placeholder_enter P co args error val (sm, st')
                   = (case callback P (Callback co args error val)
                             (sm\<lparr>avail := Some (js_sub (toNumber (avail sm)) (Fin 1))\<rparr>, st')
                      of (w, c) \<Rightarrow> (w, Some c)))"
  using assms
  by (simp add: mod_acquireCoro_def Let_def placeholder_enter_def enterSemaphore_def)


theorem toplevel_acquire_placeholder_witness:
  "fst (snd (mod_acquireCoro plain_pipeline example_args (sem_of 1 0, empty_store))) = sem_of 1 0
   \<and> fst (mod_acquireCoro plain_pipeline example_args (sem_of 1 0, empty_store)) = 0
   \<and> context_get 0 ''user''
         (snd (snd (mod_acquireCoro plain_pipeline example_args (sem_of 1 0, empty_store)))) = None
   \<and> ext (snd (snd (mod_acquireCoro plain_pipeline example_args (sem_of 1 0, empty_store))))
       = JUndefined
   \<and> queued (fst (fst (placeholder_enter plain_pipeline 0 example_args JNull (JNumber (Fin 42))
         (snd (mod_acquireCoro plain_pipeline example_args (sem_of 1 0, empty_store))))))
       = [Callback 0 example_args JNull (JNumber (Fin 42))]"
proof -
  have top: "\<not> truthy (currentCoro plain_pipeline empty_store)"
    by (simp add: plain_pipeline_def empty_store_def)
  have full: "\<not> js_gt (toNumber (avail (sem_of 1 0))) (Fin 0)"
    by (simp add: sem_of_def js_gt_def)
  from toplevel_acquire_placeholder [OF top, where args = example_args and sm = "sem_of 1 0"]
  obtain co st' where
    a: "mod_acquireCoro plain_pipeline example_args (sem_of 1 0, empty_store)
          = (co, (sem_of 1 0, st'))"
    and b: "ctxs st' (ctxt (coros st' co)) = Map.empty"
    and c: "ext st' = ext empty_store"
    and d: "\<forall>error val. \<not> js_gt (toNumber (avail (sem_of 1 0))) (Fin 0) \<longrightarrow>
              placeholder_enter plain_pipeline co example_args error val (sem_of 1 0, st')
                = (((sem_of 1 0)\<lparr>queued := queued (sem_of 1 0) @ [Callback co example_args error val]\<rparr>,
                    st'), None)"
    by blast
  have e: "co = 0"
    using a by (simp add: mod_acquireCoro_def plain_pipeline_def empty_store_def)
  from d full have
    "placeholder_enter plain_pipeline co example_args JNull (JNumber (Fin 42)) (sem_of 1 0, st')
       = (((sem_of 1 0)\<lparr>queued := queued (sem_of 1 0)
              @ [Callback co example_args JNull (JNumber (Fin 42))]\<rparr>, st'), None)"
    by blast
  with a b c e show ?thesis
    by (simp add: context_get_def sem_of_def empty_store_def)
qed

text \<open>
  C4. When the placeholder's \<open>enter(error, value)\<close> obtains a slot, the callback
  acquires the real coroutine \<open>c\<close> from the inner pipeline; sets the placeholder's
  \<open>enter\<close> and \<open>leave\<close> to those of \<open>c\<close>; marks \<open>c\<close>; gives \<open>c\<close> a
  context that holds every entry the placeholder's context held before this
  \<open>enter\<close>; and ends by calling the real \<open>enter\<close> with the same \<open>error\<close> and
  \<open>value\<close>. The entries survive provided the inner \<open>acquireCoro\<close> leaves the
  placeholder's context alone (the two last premises). The last part is the case
  where the slot is free at once; \<open>releaseCoro\<close> runs the same callback when it
  hands a slot to a queued placeholder.
\<close>

theorem placeholder_binds_real_coroutine:
  assumes "acquireCoro P args st = (c, st1)"
    and "ctxt (coros st1 co) = ctxt (coros st co)"
    and "ctxs st1 (ctxt (coros st co)) = ctxs st (ctxt (coros st co))"
  shows "\<exists>st'. callback P (Callback co args error val) (sm, st)
             = ((sm, st'), Call (enter (coros st1 c)) co error val)
           \<and> enter (coros st' co) = enter (coros st1 c)
           \<and> leave (coros st' co) = leave (coros st1 c)
           \<and> enter (coros st' co) = enter (coros st' c)
           \<and> leave (coros st' co) = leave (coros st' c)
           \<and> inSemaphore (coros st' c)
           \<and> (\<forall>k v. context_get co k st = Some v \<longrightarrow> context_get c k st' = Some v)
           \<and> (js_gt (toNumber (avail sm)) (Fin 0) \<longrightarrow>
                 placeholder_enter P co args error val (sm, st)
                   = ((sm\<lparr>avail := Some (js_sub (toNumber (avail sm)) (Fin 1))\<rparr>, st'),
                      Some (Call (enter (coros st1 c)) co error val)))"
  using assms
  by (simp add: callback_def Let_def upd_coro_simps context_get_def placeholder_enter_def
      enterSemaphore_def)

text \<open>
  C10. After the callback has bound the placeholder \<open>co\<close> to the real coroutine
  \<open>c\<close>, the two have the same context object: the field of \<open>c\<close> holds the
  reference the field of \<open>co\<close> holds, and no bag was copied. Whatever is then
  written through one handle is read through the other.
\<close>

theorem bound_context_is_shared:
  assumes "acquireCoro P args st = (c, st1)"
    and "callback P (Callback co args error val) (sm, st) = ((sm', st'), cl)"
  shows "ctxt (coros st' c) = ctxt (coros st' co)
         \<and> ctxs st' = ctxs st1
         \<and> (\<forall>h k v j. context_get co j (context_set h k v st') = context_get c j (context_set h k v st'))
         \<and> (\<forall>k v. context_get c k (context_set co k v st') = Some v)
         \<and> (\<forall>k v. context_get co k (context_set c k v st') = Some v)"
proof -
  from callback_result [OF assms(1), where co = co and error = error and val = val and sm = sm]
  obtain s where eq: "callback P (Callback co args error val) (sm, st)
        = ((sm, s), Call (enter (coros st1 c)) co error val)"
    and c1: "ctxt (coros s c) = ctxt (coros st1 co)"
    and c2: "ctxt (coros s co) = ctxt (coros st1 co)"
    and c3: "ctxs s = ctxs st1"
    by blast
  from eq assms(2) have "st' = s"
    by simp
  with c1 c2 c3 show ?thesis
    by (simp add: context_get_def context_set_def)
qed

lemma placeholder_store_simps:
  "nextAddr placeholder_store = 1"
  "ext placeholder_store = JUndefined"
  "coros placeholder_store 0 =
     \<lparr>inSemaphore = True, ctxt = 0, enter = PlaceholderEnter 0 example_args, leave = FUndefined\<rparr>"
  "ctxs placeholder_store 0 = [''user'' \<mapsto> JString ''ann'']"
  by (simp_all add: placeholder_store_def context_set_def mod_acquireCoro_def plain_pipeline_def
      empty_store_def)

lemma plain_acquire_placeholder_store:
  "acquireCoro plain_pipeline example_args placeholder_store =
     (1, placeholder_store\<lparr>coros := (coros placeholder_store)(1 :=
               \<lparr>inSemaphore = False, ctxt = 1, enter = ExternFn 2, leave = ExternFn 3\<rparr>),
            ctxs := (ctxs placeholder_store)(1 := Map.empty),
            nextAddr := 2\<rparr>)"
  by (simp add: plain_pipeline_def placeholder_store_simps)

lemma bound_store_simps:
  "coros bound_store 0 =
     \<lparr>inSemaphore = True, ctxt = 0, enter = ExternFn 2, leave = ExternFn 3\<rparr>"
  "coros bound_store 1 =
     \<lparr>inSemaphore = True, ctxt = 0, enter = ExternFn 2, leave = ExternFn 3\<rparr>"
  "ctxs bound_store 0 = [''user'' \<mapsto> JString ''ann'']"
  by (simp_all add: bound_store_def placeholder_enter_def enterSemaphore_def sem_of_def js_gt_def
      callback_def Let_def upd_coro_simps plain_pipeline_def placeholder_store_simps)

theorem placeholder_binds_real_coroutine_witness:
  "snd (placeholder_enter plain_pipeline 0 example_args JNull (JNumber (Fin 42))
          (sem_of 1 1, placeholder_store))
     = Some (Call (ExternFn 2) 0 JNull (JNumber (Fin 42)))
   \<and> fst (fst (placeholder_enter plain_pipeline 0 example_args JNull (JNumber (Fin 42))
          (sem_of 1 1, placeholder_store))) = sem_of 1 0
   \<and> context_get 0 ''user'' placeholder_store = Some (JString ''ann'')
   \<and> context_get 1 ''user'' bound_store = Some (JString ''ann'')
   \<and> inSemaphore (coros bound_store 1)
   \<and> enter (coros bound_store 0) = ExternFn 2
   \<and> leave (coros bound_store 0) = ExternFn 3"
proof -
  have h2: "ctxt (coros (snd (acquireCoro plain_pipeline example_args placeholder_store)) 0)
      = ctxt (coros placeholder_store 0)"
    by (simp add: plain_acquire_placeholder_store)
  have h3: "ctxs (snd (acquireCoro plain_pipeline example_args placeholder_store))
        (ctxt (coros placeholder_store 0))
      = ctxs placeholder_store (ctxt (coros placeholder_store 0))"
    by (simp add: plain_acquire_placeholder_store placeholder_store_simps)
  have h1: "acquireCoro plain_pipeline example_args placeholder_store
      = (1, snd (acquireCoro plain_pipeline example_args placeholder_store))"
    by (simp add: plain_acquire_placeholder_store)
  have free: "js_gt (toNumber (avail (sem_of 1 1))) (Fin 0)"
    by (simp add: sem_of_def js_gt_def)
  from placeholder_binds_real_coroutine [OF h1 h2 h3, where error = JNull
      and val = "JNumber (Fin 42)" and sm = "sem_of 1 1"] free
  obtain st' where
    "placeholder_enter plain_pipeline 0 example_args JNull (JNumber (Fin 42))
        (sem_of 1 1, placeholder_store)
       = ((sem_of 1 1\<lparr>avail := Some (js_sub (toNumber (avail (sem_of 1 1))) (Fin 1))\<rparr>, st'),
          Some (Call (enter (coros (snd (acquireCoro plain_pipeline example_args placeholder_store)) 1))
             0 JNull (JNumber (Fin 42))))"
    by blast
  then show ?thesis
    using bound_store_simps placeholder_store_simps
    by (simp add: plain_acquire_placeholder_store sem_of_def js_sub_def context_get_def)
qed

theorem bound_context_is_shared_witness:
  "ctxt (coros bound_store 1) = ctxt (coros bound_store 0)
   \<and> context_get 1 ''seen'' (context_set 0 ''seen'' (JBool True) bound_store) = Some (JBool True)
   \<and> context_get 0 ''seen'' (context_set 1 ''seen'' (JBool True) bound_store) = Some (JBool True)"
proof -
  have h1: "acquireCoro plain_pipeline example_args placeholder_store
      = (1, snd (acquireCoro plain_pipeline example_args placeholder_store))"
    by (simp add: plain_acquire_placeholder_store)
  have h2: "callback plain_pipeline (Callback 0 example_args JNull (JNumber (Fin 42)))
        (sem_of 1 0, placeholder_store)
      = ((sem_of 1 0, bound_store), Call (ExternFn 2) 0 JNull (JNumber (Fin 42)))"
    by (simp add: bound_store_def placeholder_enter_def enterSemaphore_def sem_of_def js_gt_def
        js_sub_def callback_def Let_def upd_coro_simps plain_acquire_placeholder_store)
  from bound_context_is_shared [OF h1 h2] show ?thesis
    by blast
qed

section \<open>Releasing a coroutine through the mod\<close>

lemma release_unmarked:
  assumes "\<not> inSemaphore (coros st co)"
  shows "mod_releaseCoro P invoke protocol co (sm, st)
           = (fst (releaseCoro P protocol co st), (sm, snd (releaseCoro P protocol co st)))"
  using assms by (simp add: mod_releaseCoro_def split: prod.splits)

lemma release_marked_free:
  assumes "inSemaphore (coros st co)" and "queued sm = []"
  shows "mod_releaseCoro P invoke protocol co (sm, st)
           = (fst (releaseCoro P protocol co (unmark co st)),
              (sm\<lparr>avail := Some (js_add (toNumber (avail sm)) (Fin 1))\<rparr>,
               snd (releaseCoro P protocol co (unmark co st))))"
  using assms by (simp add: mod_releaseCoro_def leaveSemaphore_def split: prod.splits)

lemma release_marked_handoff:
  assumes "inSemaphore (coros st co)" and "queued sm = k # rest"
  shows "mod_releaseCoro P invoke protocol co (sm, st)
           = (case callback P k (sm\<lparr>queued := rest\<rparr>, unmark co st) of (w', cl) \<Rightarrow>
                (fst (releaseCoro P protocol co (snd (invoke cl w'))),
                 (fst (invoke cl w'), snd (releaseCoro P protocol co (snd (invoke cl w'))))))"
  using assms by (simp add: mod_releaseCoro_def leaveSemaphore_def Let_def split: prod.splits)

text \<open>
  C5. \<open>releaseCoro\<close> of the mod, for a coroutine \<open>co\<close>. If \<open>co\<close> is not marked,
  the semaphore is untouched and the call is the inner pipeline's
  \<open>releaseCoro\<close>. If \<open>co\<close> is marked, the marker is cleared first; then
  \<open>leaveSemaphore\<close> runs once, which frees a slot when nothing is queued and
  otherwise hands the slot to the oldest queued callback, which runs on a state
  where \<open>co\<close> is already unmarked; then the inner \<open>releaseCoro\<close> disposes of
  \<open>co\<close>. Nothing in this depends on how the body ended. A second
  \<open>releaseCoro\<close> on the same coroutine frees no further slot, the inner
  pipeline having left the marker clear.
\<close>

theorem release_frees_one_slot:
  "(\<not> inSemaphore (coros st co) \<longrightarrow>
      mod_releaseCoro P invoke protocol co (sm, st)
        = (fst (releaseCoro P protocol co st), (sm, snd (releaseCoro P protocol co st))))
   \<and> (inSemaphore (coros st co) \<and> queued sm = [] \<longrightarrow>
      mod_releaseCoro P invoke protocol co (sm, st)
        = (fst (releaseCoro P protocol co (unmark co st)),
           (sm\<lparr>avail := Some (js_add (toNumber (avail sm)) (Fin 1))\<rparr>,
            snd (releaseCoro P protocol co (unmark co st)))))
   \<and> (\<forall>k rest. inSemaphore (coros st co) \<and> queued sm = k # rest \<longrightarrow>
      mod_releaseCoro P invoke protocol co (sm, st)
        = (case callback P k (sm\<lparr>queued := rest\<rparr>, unmark co st) of (w', cl) \<Rightarrow>
             (fst (releaseCoro P protocol co (snd (invoke cl w'))),
              (fst (invoke cl w'), snd (releaseCoro P protocol co (snd (invoke cl w')))))))
   \<and> \<not> inSemaphore (coros (unmark co st) co)
   \<and> (inSemaphore (coros st co) \<and> queued sm = []
        \<and> \<not> inSemaphore (coros (snd (releaseCoro P protocol co (unmark co st))) co) \<longrightarrow>
      fst (snd (mod_releaseCoro P invoke protocol co
                 (snd (mod_releaseCoro P invoke protocol co (sm, st)))))
        = sm\<lparr>avail := Some (js_add (toNumber (avail sm)) (Fin 1))\<rparr>)"
proof -
  have a: "\<not> inSemaphore (coros st co) \<longrightarrow>
      mod_releaseCoro P invoke protocol co (sm, st)
        = (fst (releaseCoro P protocol co st), (sm, snd (releaseCoro P protocol co st)))"
    by (simp add: release_unmarked)
  have b: "inSemaphore (coros st co) \<and> queued sm = [] \<longrightarrow>
      mod_releaseCoro P invoke protocol co (sm, st)
        = (fst (releaseCoro P protocol co (unmark co st)),
           (sm\<lparr>avail := Some (js_add (toNumber (avail sm)) (Fin 1))\<rparr>,
            snd (releaseCoro P protocol co (unmark co st))))"
    by (simp add: release_marked_free)
  have c: "\<forall>k rest. inSemaphore (coros st co) \<and> queued sm = k # rest \<longrightarrow>
      mod_releaseCoro P invoke protocol co (sm, st)
        = (case callback P k (sm\<lparr>queued := rest\<rparr>, unmark co st) of (w', cl) \<Rightarrow>
             (fst (releaseCoro P protocol co (snd (invoke cl w'))),
              (fst (invoke cl w'), snd (releaseCoro P protocol co (snd (invoke cl w'))))))"
    by (simp add: release_marked_handoff)
  have d: "\<not> inSemaphore (coros (unmark co st) co)"
    by (simp add: upd_coro_simps)
  have e: "inSemaphore (coros st co) \<and> queued sm = []
        \<and> \<not> inSemaphore (coros (snd (releaseCoro P protocol co (unmark co st))) co) \<longrightarrow>
      fst (snd (mod_releaseCoro P invoke protocol co
                 (snd (mod_releaseCoro P invoke protocol co (sm, st)))))
        = sm\<lparr>avail := Some (js_add (toNumber (avail sm)) (Fin 1))\<rparr>"
    by (simp add: release_marked_free release_unmarked)
  from a b c d e show ?thesis by blast
qed

theorem release_frees_one_slot_witness:
  "fst (snd (mod_releaseCoro plain_pipeline (\<lambda>cl w. w) (JObject 10) 1 (sem_of 1 0, bound_store)))
     = sem_of 1 1
   \<and> fst (snd (mod_releaseCoro plain_pipeline (\<lambda>cl w. w) (JObject 10) 1
        (snd (mod_releaseCoro plain_pipeline (\<lambda>cl w. w) (JObject 10) 1 (sem_of 1 0, bound_store)))))
     = sem_of 1 1
   \<and> fst (snd (mod_releaseCoro plain_pipeline (\<lambda>cl w. w) (JObject 10) 7 (sem_of 1 0, bound_store)))
     = sem_of 1 0
   \<and> fst (snd (mod_releaseCoro plain_pipeline (\<lambda>cl w. w) (JObject 10) 1
        ((sem_of 1 0)\<lparr>queued := [Callback 5 example_args JNull JNull]\<rparr>, bound_store)))
     = sem_of 1 0"
proof -
  have m1: "inSemaphore (coros bound_store 1)"
    using bound_store_simps by simp
  have m7: "\<not> inSemaphore (coros bound_store 7)"
    by (simp add: bound_store_def placeholder_enter_def enterSemaphore_def sem_of_def js_gt_def
        callback_def Let_def upd_coro_simps plain_pipeline_def placeholder_store_def
        context_set_def mod_acquireCoro_def empty_store_def)
  have q: "queued (sem_of 1 0) = []"
    by (simp add: sem_of_def)
  have keep: "\<not> inSemaphore (coros (snd (releaseCoro plain_pipeline (JObject 10) 1
      (unmark 1 bound_store))) 1)"
    by (simp add: plain_pipeline_def upd_coro_simps)
  have one: "(sem_of 1 0)\<lparr>avail := Some (js_add (toNumber (avail (sem_of 1 0))) (Fin 1))\<rparr> = sem_of 1 1"
    by (simp add: sem_of_def)
  note r = release_frees_one_slot [where P = plain_pipeline and invoke = "\<lambda>cl w. w"
      and protocol = "JObject 10"]
  from r [where co = 1 and sm = "sem_of 1 0" and st = bound_store] m1 q one
  have a: "fst (snd (mod_releaseCoro plain_pipeline (\<lambda>cl w. w) (JObject 10) 1 (sem_of 1 0, bound_store)))
      = sem_of 1 1"
    by simp
  from r [where co = 1 and sm = "sem_of 1 0" and st = bound_store] m1 q keep
  have "fst (snd (mod_releaseCoro plain_pipeline (\<lambda>cl w. w) (JObject 10) 1
        (snd (mod_releaseCoro plain_pipeline (\<lambda>cl w. w) (JObject 10) 1 (sem_of 1 0, bound_store)))))
      = (sem_of 1 0)\<lparr>avail := Some (js_add (toNumber (avail (sem_of 1 0))) (Fin 1))\<rparr>"
    by blast
  from this one
  have b: "fst (snd (mod_releaseCoro plain_pipeline (\<lambda>cl w. w) (JObject 10) 1
        (snd (mod_releaseCoro plain_pipeline (\<lambda>cl w. w) (JObject 10) 1 (sem_of 1 0, bound_store)))))
      = sem_of 1 1"
    by (rule trans)
  from r [where co = 7 and sm = "sem_of 1 0" and st = bound_store] m7
  have c: "fst (snd (mod_releaseCoro plain_pipeline (\<lambda>cl w. w) (JObject 10) 7 (sem_of 1 0, bound_store)))
      = sem_of 1 0"
    by simp
  from r [where co = 1 and sm = "(sem_of 1 0)\<lparr>queued := [Callback 5 example_args JNull JNull]\<rparr>"
      and st = bound_store] m1
  have d: "fst (snd (mod_releaseCoro plain_pipeline (\<lambda>cl w. w) (JObject 10) 1
        ((sem_of 1 0)\<lparr>queued := [Callback 5 example_args JNull JNull]\<rparr>, bound_store)))
      = sem_of 1 0"
    by (simp add: callback_def Let_def sem_of_def split: prod.splits)
  from a b c d show ?thesis by blast
qed

end
